theory Spec2Isabelle
  imports Main "HOL-Library.AList" "HOL-Library.Char_ord" "HOL-Library.List_Lexorder"
begin

section \<open>Strings and the placeholder pattern of the config loader\<close>

text \<open>
  Go strings are byte sequences; they are modelled as \<^typ>\<open>string\<close> (a list of
  8-bit characters). The helpers below are \<^verbatim>\<open>strings.HasPrefix\<close>,
  \<^verbatim>\<open>strings.TrimPrefix\<close>, \<^verbatim>\<open>strings.HasSuffix\<close> and
  \<^verbatim>\<open>strings.TrimSuffix\<close> of the Go standard library.
\<close>

definition hasPrefix :: "string \<Rightarrow> string \<Rightarrow> bool" where
  "hasPrefix s p = (length p \<le> length s \<and> take (length p) s = p)"

definition trimPrefix :: "string \<Rightarrow> string \<Rightarrow> string" where
  "trimPrefix s p = (if hasPrefix s p then drop (length p) s else s)"

definition hasSuffix :: "string \<Rightarrow> string \<Rightarrow> bool" where
  "hasSuffix s x = (length x \<le> length s \<and> drop (length s - length x) s = x)"

definition trimSuffix :: "string \<Rightarrow> string \<Rightarrow> string" where
  "trimSuffix s x = (if hasSuffix s x then take (length s - length x) s else s)"

text \<open>
  \<^verbatim>\<open>resolveValue\<close> compiles the regular expression \<^verbatim>\<open>\${(.*?)}\<close>: a dollar
  sign, an opening brace, the shortest run of characters other than the line feed
  (\<^verbatim>\<open>.\<close> does not match a line feed, and the group is lazy), and a closing brace.
  \<open>reGroup\<close> matches the part \<^verbatim>\<open>(.*?)}\<close> at the head of a string and returns the
  captured group with the text after the closing brace; \<open>reMatch\<close> matches the
  whole expression at the head of a string and returns the matched text with the text
  after it.
\<close>

fun reGroup :: "string \<Rightarrow> (string \<times> string) option" where
  "reGroup [] = None"
| "reGroup (c # cs) =
     (if c = CHR ''}'' then Some ([], cs)
      else if c = CHR 0x0A then None
      else (case reGroup cs of
              None \<Rightarrow> None
            | Some (g, r) \<Rightarrow> Some (c # g, r)))"

fun reMatch :: "string \<Rightarrow> (string \<times> string) option" where
  "reMatch (c1 # c2 # cs) =
     (if c1 = CHR ''$'' \<and> c2 = CHR ''{'' then
        (case reGroup cs of
           None \<Rightarrow> None
         | Some (g, r) \<Rightarrow> Some (c1 # c2 # g @ ''}'', r))
      else None)"
| "reMatch _ = None"

lemma reGroup_length: "reGroup s = Some (g, r) \<Longrightarrow> length r < length s"
  by (induction s arbitrary: g r) (auto split: if_splits option.splits)

lemma reMatch_length: "reMatch s = Some (m, r) \<Longrightarrow> length r < length s"
  by (cases s rule: reMatch.cases) (auto split: if_splits option.splits dest: reGroup_length)

text \<open>
  \<^verbatim>\<open>ReplaceAllStringFunc\<close> of that expression: the text is searched from left to
  right for the leftmost match, the text before the match is copied, the match is
  replaced by \<open>repl\<close> applied to the matched text, and the search goes on after the
  end of the match. The replacement is appended to the output and never searched.
\<close>

function replaceAllStringFunc :: "string \<Rightarrow> (string \<Rightarrow> string) \<Rightarrow> string" where
  "replaceAllStringFunc [] repl = []"
| "replaceAllStringFunc (c # cs) repl =
     (case reMatch (c # cs) of
        None \<Rightarrow> c # replaceAllStringFunc cs repl
      | Some (m, rest) \<Rightarrow> repl m @ replaceAllStringFunc rest repl)"
  by pat_completeness auto
termination
  by (relation "measure (\<lambda>(s, repl). length s)") (auto dest: reMatch_length)

section \<open>The variable resolution engine\<close>

text \<open>
  A \<^verbatim>\<open>map[string]string\<close> is modelled by its entries, a list of key and value
  pairs with distinct keys; the order of the list stands for the order in which one
  \<^verbatim>\<open>range\<close> loop visits the entries. Reading \<^verbatim>\<open>m[k]\<close> is \<^const>\<open>map_of\<close>,
  the assignment \<^verbatim>\<open>m[k] = v\<close> is \<^const>\<open>AList.update\<close>.
\<close>

type_synonym strmap = "(string \<times> string) list"

definition resolveValue :: "string \<Rightarrow> strmap \<Rightarrow> string" where
  "resolveValue rawValue ctxt =
     replaceAllStringFunc rawValue
       (\<lambda>match.
          let varName = trimSuffix (trimPrefix match ''${'') ''}'' in
          (case map_of ctxt varName of
             Some val \<Rightarrow> val
           | None \<Rightarrow> match))"

text \<open>
  Two predicates on templates, used to state where a piece of a template is resolved on
  its own. \<open>hasOpen t\<close>: the two characters \<^verbatim>\<open>${\<close> occur somewhere in \<open>t\<close>.
  \<open>unclosed t\<close>: some occurrence of \<^verbatim>\<open>${\<close> in \<open>t\<close> is followed, up to the end of
  \<open>t\<close>, by neither a closing brace nor a line feed, so that a match starting there
  could run on into the text that follows \<open>t\<close>.
\<close>

fun hasOpen :: "string \<Rightarrow> bool" where
  "hasOpen (c1 # c2 # cs) = ((c1 = CHR ''$'' \<and> c2 = CHR ''{'') \<or> hasOpen (c2 # cs))"
| "hasOpen _ = False"

fun unclosed :: "string \<Rightarrow> bool" where
  "unclosed (c1 # c2 # cs) =
     ((c1 = CHR ''$'' \<and> c2 = CHR ''{'' \<and> CHR ''}'' \<notin> set cs \<and> CHR 0x0A \<notin> set cs)
      \<or> unclosed (c2 # cs))"
| "unclosed _ = False"

section \<open>Maps on the heap and \<open>resolveConfigMap\<close>\<close>

text \<open>
  A Go map is a reference to a mutable object, and \<^verbatim>\<open>resolveConfigMap\<close> receives
  references. The \<^verbatim>\<open>map[string]string\<close> objects therefore live in a heap: the list
  of the maps allocated so far, a reference being an index into it. \<open>makeMap\<close> is
  \<^verbatim>\<open>make(map[string]string)\<close>, \<open>entries\<close> reads the entries of a map (what a
  \<^verbatim>\<open>range\<close> loop visits) and \<open>mapassign\<close> is the assignment \<^verbatim>\<open>m[k] = v\<close>.
  References are those that \<open>makeMap\<close> has returned; the nil map is not modelled.
\<close>

type_synonym ref = nat

type_synonym heap = "strmap list"

definition makeMap :: "heap \<Rightarrow> ref \<times> heap" where
  "makeMap h = (length h, h @ [[]])"

definition entries :: "heap \<Rightarrow> ref \<Rightarrow> strmap" where
  "entries h r = (if r < length h then h ! r else [])"

definition mapassign :: "heap \<Rightarrow> ref \<Rightarrow> string \<Rightarrow> string \<Rightarrow> heap" where
  "mapassign h r k v = h[r := AList.update k v (entries h r)]"

text \<open>
  The three \<^verbatim>\<open>range\<close> loops of \<^verbatim>\<open>resolveConfigMap\<close> are folds over the entries
  of the map they range over, with the heap as the state; the maps they range over are
  not the maps they write to. The parameters \<open>sectionName\<close> and \<open>logPrefix\<close> are not
  used by the function body.
\<close>

definition resolveConfigMap :: "ref \<Rightarrow> ref \<Rightarrow> string \<Rightarrow> string \<Rightarrow> heap \<Rightarrow> ref \<times> heap" where
  "resolveConfigMap rawConfig primaryContext sectionName logPrefix h =
     (let (resolved, h1) = makeMap h;
          (combinedContext, h2) = makeMap h1;
          h3 = fold (\<lambda>(k, v) hp. mapassign hp combinedContext k v)
                 (entries h2 primaryContext) h2;
          h4 = fold (\<lambda>(k, v) hp. mapassign hp combinedContext k v)
                 (entries h3 rawConfig) h3;
          h5 = fold (\<lambda>(k, v) hp.
                        mapassign hp resolved k (resolveValue v (entries hp combinedContext)))
                 (entries h4 rawConfig) h4
      in (resolved, h5))"

section \<open>File paths\<close>

text \<open>
  \<^verbatim>\<open>filepath.Base\<close>, \<^verbatim>\<open>filepath.Clean\<close> and \<^verbatim>\<open>filepath.Join\<close> of the Go standard
  library, for a system whose path separator is the slash. \<open>Clean\<close> works on the
  elements between slashes: empty elements and \<^verbatim>\<open>.\<close> are dropped, \<^verbatim>\<open>..\<close> removes the
  element before it, is dropped at the root, and is kept at the head of a path that is
  not rooted.
\<close>

definition Base :: "string \<Rightarrow> string" where
  "Base path =
     (if path = [] then ''.''
      else (let p = rev (dropWhile (\<lambda>c. c = CHR ''/'') (rev path));
                e = rev (takeWhile (\<lambda>c. c \<noteq> CHR ''/'') (rev p))
            in if e = [] then ''/'' else e))"

fun splitSlash :: "string \<Rightarrow> string list" where
  "splitSlash [] = [[]]"
| "splitSlash (c # cs) =
     (if c = CHR ''/'' then [] # splitSlash cs
      else (case splitSlash cs of
              [] \<Rightarrow> [[c]]
            | x # xs \<Rightarrow> (c # x) # xs))"

fun joinSlash :: "string list \<Rightarrow> string" where
  "joinSlash [] = []"
| "joinSlash [x] = x"
| "joinSlash (x # y # ys) = x @ ''/'' @ joinSlash (y # ys)"

definition cleanStep :: "bool \<Rightarrow> string list \<Rightarrow> string \<Rightarrow> string list" where
  "cleanStep rooted out c =
     (if c = [] \<or> c = ''.'' then out
      else if c = ''..'' then
        (if out \<noteq> [] \<and> last out \<noteq> ''..'' then butlast out
         else if \<not> rooted then out @ [''..'']
         else out)
      else out @ [c])"

definition Clean :: "string \<Rightarrow> string" where
  "Clean path =
     (if path = [] then ''.''
      else (let rooted = (hd path = CHR ''/'');
                out = foldl (cleanStep rooted) [] (splitSlash path);
                s = (if rooted then ''/'' else []) @ joinSlash out
            in if s = [] then ''.'' else s))"

definition Join :: "string \<Rightarrow> string \<Rightarrow> string" where
  "Join a b =
     (if a \<noteq> [] then Clean (a @ ''/'' @ b)
      else if b \<noteq> [] then Clean b
      else [])"

section \<open>The configuration loader\<close>

text \<open>
  The values of dynamic type (\<^verbatim>\<open>interface{}\<close>) that the package stores: strings,
  booleans and string slices in \<^verbatim>\<open>Metadata\<close>, and the three maps of a
  \<^verbatim>\<open>LoadedConfig\<close> in the map built by \<^verbatim>\<open>ToMap\<close> and \<^verbatim>\<open>ToJSON\<close>. A
  \<^verbatim>\<open>map[string]string\<close> is held by reference; the outer maps
  (\<^verbatim>\<open>map[string]map[string]string\<close>, \<^verbatim>\<open>map[string]interface{}\<close>) are held by
  their entries.
\<close>

datatype any =
    AString string
  | ABool bool
  | AStrings "string list"
  | AStrMap ref
  | AMapMap "(string \<times> ref) list"
  | AAnyMap "(string \<times> any) list"

datatype error = Error string

record Options =
  BasePath :: string
  CustomFilePaths :: "string list"
  Environment :: string
  EnableDatabaseGrouping :: bool

record LoadedConfig =
  Main :: ref
  DatabaseConfigs :: "(string \<times> ref) list"
  Metadata :: "(string \<times> any) list"
  rawMainConfig :: ref
  rawDatabaseConfigs :: "(string \<times> ref) list"
  opts :: Options

definition newLoadedConfig :: "Options \<Rightarrow> heap \<Rightarrow> LoadedConfig \<times> heap" where
  "newLoadedConfig options h =
     (let (m, h1) = makeMap h;
          (rm, h2) = makeMap h1
      in (\<lparr>Main = m, DatabaseConfigs = [], Metadata = [], rawMainConfig = rm,
           rawDatabaseConfigs = [], opts = options\<rparr>, h2))"

text \<open>
  A map literal \<^verbatim>\<open>map[string]string{...}\<close> allocates a map with the given entries.
\<close>

definition makeLit :: "strmap \<Rightarrow> heap \<Rightarrow> ref \<times> heap" where
  "makeLit kvs h = (length h, h @ [kvs])"

text \<open>
  \<^verbatim>\<open>strings.ToUpper\<close> on the letters a to z. Its only use builds the section name
  handed to \<open>resolveConfigMap\<close>, which does not read it.
\<close>

definition toUpper :: "string \<Rightarrow> string" where
  "toUpper s =
     map (\<lambda>c. if (97::nat) \<le> of_char c \<and> of_char c \<le> (122::nat)
               then char_of (of_char c - (32::nat)) else c) s"

text \<open>
  \<^verbatim>\<open>parseConfFile\<close>, the reader of one source file: it reads nothing and stores four
  fixed entries in the target map. Its \<^verbatim>\<open>error\<close> result is an option, \<open>None\<close>
  being nil. \<open>Load\<close> does not call it.
\<close>

definition parseConfFile :: "string \<Rightarrow> ref \<Rightarrow> string \<Rightarrow> string \<Rightarrow> heap \<Rightarrow> error option \<times> heap" where
  "parseConfFile filePath targetConfig sectionName logPrefix h =
     (let h1 = mapassign h targetConfig (''mock_parsed_key_from_'' @ Base filePath) ''mock_value'';
          h2 = mapassign h1 targetConfig ''input_var'' ''hello'';
          h3 = mapassign h2 targetConfig ''another_input'' ''world_${input_var}'';
          h4 = mapassign h3 targetConfig ''to_be_resolved'' ''original_value''
      in (None, h4))"

text \<open>
  \<^verbatim>\<open>Load\<close>. The reading of the clock, formatted by
  \<^verbatim>\<open>time.Now().UTC().Format(time.RFC3339)\<close>, is the parameter \<open>now\<close>. The result is
  the pair \<^verbatim>\<open>(*LoadedConfig, error)\<close> as a sum, with the heap after the call. The
  function reads no file.
\<close>

definition Load :: "Options \<Rightarrow> string \<Rightarrow> heap \<Rightarrow> (error + LoadedConfig) \<times> heap" where
  "Load options now h =
     (let (lc0, h0) = newLoadedConfig options h;
          h1 = mapassign h0 (Main lc0) ''mock_key_main'' ''mock_value_main'';
          h2 = mapassign h1 (Main lc0) ''another_key'' ''another_value'';
          h3 = mapassign h2 (Main lc0) ''var1'' ''value1'';
          h4 = mapassign h3 (Main lc0) ''var2'' ''${var1}_value2'';
          (lc1, h5) =
            (if EnableDatabaseGrouping options then
               (let (db, hd) = makeLit [(''host'', ''localhost''), (''port'', ''5432'')] h4
                in (lc0\<lparr>DatabaseConfigs := AList.update ''mockdb'' db (DatabaseConfigs lc0)\<rparr>, hd))
             else (lc0, h4));
          lc2 = lc1\<lparr>Metadata := AList.update ''source_type'' (AString ''mock_load'') (Metadata lc1)\<rparr>;
          lc3 = lc2\<lparr>Metadata :=
                  AList.update ''parsed_files'' (AStrings [''/fake/path/mock.conf'']) (Metadata lc2)\<rparr>;
          lc4 = lc3\<lparr>Metadata :=
                  AList.update ''database_grouping_enabled''
                    (ABool (EnableDatabaseGrouping options)) (Metadata lc3)\<rparr>;
          lc5 = lc4\<lparr>Metadata := AList.update ''extraction_date'' (AString now) (Metadata lc4)\<rparr>;
          (res, h6) = resolveConfigMap (rawMainConfig lc5) (Main lc5) ''MAIN_RESOLVED_MOCK'' [] h5;
          lc6 = lc5\<lparr>Main := res\<rparr>;
          (lc7, h7) =
            (if EnableDatabaseGrouping options then
               fold (\<lambda>(dbType, rawDbConf) (lc, hp).
                       let (r, hq) = resolveConfigMap rawDbConf (Main lc)
                                       (''DB_'' @ toUpper dbType @ ''_RESOLVED_MOCK'') [] hp
                       in (lc\<lparr>DatabaseConfigs := AList.update dbType r (DatabaseConfigs lc)\<rparr>, hq))
                 (rawDatabaseConfigs lc6) (lc6, h6)
             else (lc6, h6))
      in (Inr lc7, h7))"

text \<open>
  \<^verbatim>\<open>LoadWithDefaults\<close> fills in the base path and calls \<open>Load\<close>.
\<close>

definition LoadWithDefaults ::
  "string \<Rightarrow> string \<Rightarrow> bool \<Rightarrow> string \<Rightarrow> heap \<Rightarrow> (error + LoadedConfig) \<times> heap" where
  "LoadWithDefaults basePath env enableDBGrouping now h =
     (let basePath1 = (if basePath = [] then ''/mock/base'' else basePath)
      in Load \<lparr>BasePath = basePath1, CustomFilePaths = [], Environment = env,
                EnableDatabaseGrouping = enableDBGrouping\<rparr> now h)"

section \<open>JSON output of a loaded configuration\<close>

text \<open>
  A JSON document is modelled as a tree; the bytes that \<^verbatim>\<open>encoding/json\<close> writes for
  it (quoting, escapes, the indentation asked for by \<^verbatim>\<open>MarshalIndent\<close>) are not
  modelled. \<open>marshal\<close> gives the document that \<^verbatim>\<open>encoding/json\<close> produces for a
  value: a string, a boolean, an array of strings, and for a map an object whose members
  are sorted by key. \<open>marshalIndent\<close> is \<^verbatim>\<open>json.MarshalIndent\<close>; for the values
  of type \<open>any\<close> it has no error case. Strings are taken to be UTF-8 text, which
  \<^verbatim>\<open>encoding/json\<close> writes and reads back as it is; a byte that is not part of a
  UTF-8 sequence would be written as the replacement character U+FFFD.
\<close>

datatype json =
    JNull
  | JBool bool
  | JString string
  | JArray "json list"
  | JObject "(string \<times> json) list"















section \<open>The chart product manager\<close>

text \<open>
  The policies for a variable without a value, as the package names them.
\<close>

definition UnassignedVarError :: string where
  "UnassignedVarError = ''error''"

definition UnassignedVarEmpty :: string where
  "UnassignedVarEmpty = ''empty''"

definition UnassignedVarKeep :: string where
  "UnassignedVarKeep = ''keep''"

text \<open>
  What a call can act on: the files of the file system (path and content) and the lines
  written by the logger of the manager. A \<open>FileSystemProductManager\<close> carries its base
  path and, when a test installs one, the function that replaces
  \<^verbatim>\<open>InstantiateProduct\<close>. The variables are a \<^verbatim>\<open>map[string]interface{}\<close>, given by
  its entries. A failure \<^verbatim>\<open>("", err)\<close> is the left summand of the result.
\<close>

record world =
  files :: "(string \<times> string) list"
  logged :: "string list"

record FileSystemProductManager =
  baseProductsPath :: string
  InstantiateProductFunc ::
    "(string \<Rightarrow> (string \<times> any) list \<Rightarrow> string \<Rightarrow> string \<Rightarrow> world
        \<Rightarrow> (error + string) \<times> world) option"

definition InstantiateProduct ::
  "FileSystemProductManager \<Rightarrow> string \<Rightarrow> (string \<times> any) list \<Rightarrow> string \<Rightarrow> string \<Rightarrow> world
     \<Rightarrow> (error + string) \<times> world" where
  "InstantiateProduct m productNameOrPath variables outputPath unassignedVarAction w =
     (case InstantiateProductFunc m of
        Some f \<Rightarrow> f productNameOrPath variables outputPath unassignedVarAction w
      | None \<Rightarrow>
          if outputPath = [] then (Inl (Error ''outputPath cannot be empty''), w)
          else (let instantiatedPath = Join outputPath (Base productNameOrPath)
                in (Inr instantiatedPath,
                    w\<lparr>logged := logged w @
                       [''Mock InstantiateProduct: productNameOrPath='' @ productNameOrPath
                        @ '', outputPath='' @ outputPath
                        @ '', instantiatedPath='' @ instantiatedPath]\<rparr>)))"

section \<open>Facts about the pattern and the replacement\<close>

lemma reGroup_SomeD:
  "reGroup s = Some (g, r) \<Longrightarrow> s = g @ CHR ''}'' # r \<and> CHR ''}'' \<notin> set g \<and> CHR 0x0A \<notin> set g"
  by (induction s arbitrary: g r) (auto split: if_splits option.splits)

lemma reGroup_SomeI:
  "CHR ''}'' \<notin> set g \<Longrightarrow> CHR 0x0A \<notin> set g \<Longrightarrow> reGroup (g @ CHR ''}'' # r) = Some (g, r)"
  by (induction g) auto

lemma reGroup_None_append:
  "reGroup s = None \<Longrightarrow> CHR ''}'' \<in> set s \<or> CHR 0x0A \<in> set s \<Longrightarrow> reGroup (s @ t) = None"
  by (induction s) (auto split: if_splits option.splits)

lemma reGroup_Some_append:
  "reGroup s = Some (g, r) \<Longrightarrow> reGroup (s @ t) = Some (g, r @ t)"
  by (induction s arbitrary: g) (auto split: if_splits option.splits)

lemma reMatch_Some_append:
  "reMatch s = Some (m, r) \<Longrightarrow> reMatch (s @ t) = Some (m, r @ t)"
  by (cases s rule: reMatch.cases) (auto split: if_splits option.splits simp: reGroup_Some_append)

lemma reMatch_decomp: "reMatch s = Some (m, r) \<Longrightarrow> s = m @ r"
  by (cases s rule: reMatch.cases) (auto split: if_splits option.splits dest: reGroup_SomeD)

lemma unclosed_append: "unclosed b \<Longrightarrow> unclosed (a @ b)"
proof (induction a)
  case Nil
  then show ?case by simp
next
  case (Cons x a)
  then show ?case by (cases "a @ b") auto
qed

lemma unclosed_tl: "\<not> unclosed (c # cs) \<Longrightarrow> \<not> unclosed cs"
  using unclosed_append [of cs "[c]"] by auto

lemma reMatch_None_append:
  assumes "reMatch (c # cs) = None" and "\<not> unclosed (c # cs)" and "\<not> hasPrefix t ''{''"
  shows "reMatch (c # cs @ t) = None"
proof (cases cs)
  case Nil
  then show ?thesis using assms(3) by (cases t) (auto simp: hasPrefix_def)
next
  case (Cons d ds)
  then show ?thesis using assms(1,2)
    by (auto split: if_splits option.splits simp: reGroup_None_append)
qed

lemma replaceAllStringFunc_append:
  "\<not> unclosed pre \<Longrightarrow> \<not> hasPrefix t ''{'' \<Longrightarrow>
   replaceAllStringFunc (pre @ t) repl = replaceAllStringFunc pre repl @ replaceAllStringFunc t repl"
proof (induction pre repl rule: replaceAllStringFunc.induct)
  case (1 repl)
  then show ?case by simp
next
  case (2 c cs repl)
  show ?case
  proof (cases "reMatch (c # cs)")
    case None
    have "reMatch (c # cs @ t) = None"
      using None "2.prems" by (rule reMatch_None_append)
    moreover have "\<not> unclosed cs" using "2.prems"(1) by (rule unclosed_tl)
    ultimately show ?thesis using None "2.IH"(1) "2.prems"(2) by simp
  next
    case (Some a)
    obtain m r where a: "a = (m, r)" by (cases a)
    have eq: "c # cs = m @ r" using Some a by (simp add: reMatch_decomp)
    have "\<not> unclosed r" using "2.prems"(1) unclosed_append [of r m] eq by auto
    moreover have "reMatch (c # cs @ t) = Some (m, r @ t)"
      using reMatch_Some_append [of "c # cs" m r t] Some a by simp
    ultimately show ?thesis using Some a "2.IH"(2) "2.prems"(2) by simp
  qed
qed


lemma resolveValue_Nil: "resolveValue [] c = []"
  by (simp add: resolveValue_def)

lemma resolveValue_append:
  "\<not> unclosed pre \<Longrightarrow> \<not> hasPrefix t ''{'' \<Longrightarrow>
   resolveValue (pre @ t) c = resolveValue pre c @ resolveValue t c"
  by (simp add: resolveValue_def replaceAllStringFunc_append)

lemma reMatch_not_dollar: "x \<noteq> CHR ''$'' \<Longrightarrow> reMatch (x # xs) = None"
  by (cases xs) auto

lemma resolveValue_literal:
  "CHR ''$'' \<notin> set s \<Longrightarrow> resolveValue (s @ t) c = s @ resolveValue t c"
  by (induction s) (auto simp: resolveValue_def reMatch_not_dollar)

lemma resolveValue_dollar_other:
  "\<not> hasPrefix t ''{'' \<Longrightarrow> resolveValue (CHR ''$'' # t) c = CHR ''$'' # resolveValue t c"
  by (cases t) (auto simp: resolveValue_def hasPrefix_def)

lemma trim_token: "trimSuffix (trimPrefix (CHR ''$'' # CHR ''{'' # g @ ''}'') ''${'') ''}'' = g"
  by (simp add: trimSuffix_def trimPrefix_def hasPrefix_def hasSuffix_def)

lemma resolveValue_token_head:
  assumes "CHR ''}'' \<notin> set ident" and "CHR 0x0A \<notin> set ident"
  shows "resolveValue (''${'' @ ident @ ''}'' @ post) c =
         (case map_of c ident of Some v \<Rightarrow> v | None \<Rightarrow> ''${'' @ ident @ ''}'') @ resolveValue post c"
proof -
  have "reGroup (ident @ ''}'' @ post) = Some (ident, post)"
    using assms reGroup_SomeI [of ident post] by simp
  then show ?thesis
    using trim_token [of ident]
    by (simp add: resolveValue_def split: option.splits)
qed

lemma resolveValue_no_open: "\<not> hasOpen t \<Longrightarrow> resolveValue t c = t"
  by (induction t rule: hasOpen.induct) (auto simp: resolveValue_def)

section \<open>Facts about maps on the heap\<close>

lemma entries_simps:
  "entries [] r = []" "entries (x # h) 0 = x" "entries (x # h) (Suc n) = entries h n"
  by (simp_all add: entries_def)

lemma resolveValue_cong: "map_of c = map_of d \<Longrightarrow> resolveValue t c = resolveValue t d"
  by (simp add: resolveValue_def)

lemma fold_mapassign:
  "r < length h \<Longrightarrow>
   fold (\<lambda>(k, v) hp. mapassign hp r k v) xs h
   = h[r := fold (\<lambda>(k, v). AList.update k v) xs (h ! r)]"
proof (induction xs arbitrary: h)
  case Nil
  then show ?case by simp
next
  case (Cons x xs)
  obtain k v where x: "x = (k, v)" by (cases x)
  have "r < length (mapassign h r k v)" using Cons.prems by (simp add: mapassign_def)
  from Cons.IH [OF this] show ?case using Cons.prems x
    by (simp add: mapassign_def entries_def)
qed

lemma fold_mapassign_resolve:
  "r < length h \<Longrightarrow> c < length h \<Longrightarrow> r \<noteq> c \<Longrightarrow>
   fold (\<lambda>(k, v) hp. mapassign hp r k (resolveValue v (entries hp c))) xs h
   = h[r := fold (\<lambda>(k, v). AList.update k (resolveValue v (h ! c))) xs (h ! r)]"
proof (induction xs arbitrary: h)
  case Nil
  then show ?case by simp
next
  case (Cons x xs)
  obtain k v where x: "x = (k, v)" by (cases x)
  let ?h = "mapassign h r k (resolveValue v (entries h c))"
  have "r < length ?h" "c < length ?h" using Cons.prems by (simp_all add: mapassign_def)
  from Cons.IH [OF this Cons.prems(3)] show ?case using Cons.prems x
    by (simp add: mapassign_def entries_def)
qed

lemma map_of_fold_update:
  "map_of (fold (\<lambda>(k, v). AList.update k v) xs m) = map_of m ++ map_of (rev xs)"
  by (induction xs arbitrary: m) (auto simp: update_conv' map_add_upd_left)

lemma fold_update_fresh:
  "distinct (map fst xs) \<Longrightarrow> fst ` set xs \<inter> fst ` set m = {} \<Longrightarrow>
   fold (\<lambda>(k, v). AList.update k (f v)) xs m = m @ map (\<lambda>(k, v). (k, f v)) xs"
proof (induction xs arbitrary: m)
  case Nil
  then show ?case by simp
next
  case (Cons x xs)
  obtain k v where x: "x = (k, v)" by (cases x)
  have nk: "k \<notin> fst ` set m" using Cons.prems(2) x by auto
  then have u: "AList.update k (f v) m = m @ [(k, f v)]"
    by (induction m) auto
  have "fst ` set xs \<inter> fst ` set (m @ [(k, f v)]) = {}"
    using Cons.prems x by auto
  moreover have "distinct (map fst xs)" using Cons.prems by simp
  ultimately show ?case using Cons.IH [of "m @ [(k, f v)]"] x u by simp
qed


lemma map_of_rev_distinct: "distinct (map fst xs) \<Longrightarrow> map_of (rev xs) = map_of xs"
  by (subst map_of_inject_set) (simp_all add: rev_map [symmetric])

lemma resolveConfigMap_unfold:
  assumes "rawConfig < length h" and "primaryContext < length h"
    and "distinct (map fst (h ! rawConfig))" and "distinct (map fst (h ! primaryContext))"
  shows "\<exists>c. map_of c = map_of (h ! rawConfig @ h ! primaryContext)
           \<and> resolveConfigMap rawConfig primaryContext sectionName logPrefix h
             = (length h,
                h @ [map (\<lambda>(k, v). (k, resolveValue v c)) (h ! rawConfig), c])"
proof -
  let ?res = "length h" and ?comb = "Suc (length h)"
  let ?h2 = "h @ [[], []]"
  let ?c1 = "fold (\<lambda>(k, v). AList.update k v) (h ! primaryContext) []"
  let ?c = "fold (\<lambda>(k, v). AList.update k v) (h ! rawConfig) ?c1"
  have e2p: "entries ?h2 primaryContext = h ! primaryContext"
    using assms(2) by (simp add: entries_def nth_append)
  have h3: "fold (\<lambda>(k, v) hp. mapassign hp ?comb k v) (entries ?h2 primaryContext) ?h2
            = h @ [[], ?c1]"
    by (simp add: fold_mapassign e2p nth_append list_update_append)
  have e3r: "entries (h @ [[], ?c1]) rawConfig = h ! rawConfig"
    using assms(1) by (simp add: entries_def nth_append)
  have h4: "fold (\<lambda>(k, v) hp. mapassign hp ?comb k v) (entries (h @ [[], ?c1]) rawConfig)
              (h @ [[], ?c1]) = h @ [[], ?c]"
    by (simp add: fold_mapassign e3r nth_append list_update_append)
  have e4r: "entries (h @ [[], ?c]) rawConfig = h ! rawConfig"
    using assms(1) by (simp add: entries_def nth_append)
  have upd: "fold (\<lambda>(k, v). AList.update k (resolveValue v ?c)) (h ! rawConfig) []
             = map (\<lambda>(k, v). (k, resolveValue v ?c)) (h ! rawConfig)"
    using fold_update_fresh [of "h ! rawConfig" "[]" "\<lambda>v. resolveValue v ?c"] assms(3) by simp
  have h5: "fold (\<lambda>(k, v) hp. mapassign hp ?res k (resolveValue v (entries hp ?comb)))
              (entries (h @ [[], ?c]) rawConfig) (h @ [[], ?c])
            = h @ [map (\<lambda>(k, v). (k, resolveValue v ?c)) (h ! rawConfig), ?c]"
    by (simp add: fold_mapassign_resolve e4r nth_append list_update_append upd)
  have mc: "map_of ?c = map_of (h ! rawConfig @ h ! primaryContext)"
    using assms(3,4) by (simp add: map_of_fold_update map_of_rev_distinct)
  have "resolveConfigMap rawConfig primaryContext sectionName logPrefix h
        = (length h, h @ [map (\<lambda>(k, v). (k, resolveValue v ?c)) (h ! rawConfig), ?c])"
    unfolding resolveConfigMap_def makeMap_def
    using h3 h4 h5 by (simp add: Let_def)
  with mc show ?thesis by blast
qed

section \<open>Facts about \<open>Load\<close>\<close>

lemma entries_append_old: "r < length h \<Longrightarrow> entries (h @ xs) r = entries h r"
  by (simp add: entries_def nth_append)

lemma entries_append_new: "entries (h @ xs) (length h + n) = entries xs n"
  by (simp add: entries_def nth_append)

lemma mapassign_append_new:
  "mapassign (h @ xs) (length h + n) k v = h @ mapassign xs n k v"
  by (simp add: mapassign_def list_update_append entries_append_new)

lemma mapassign_simps:
  "mapassign (x # xs) 0 k v = AList.update k v x # xs"
  "mapassign (x # xs) (Suc n) k v = x # mapassign xs n k v"
  by (simp_all add: mapassign_def entries_def)

lemma resolveConfigMap_empty_raw:
  assumes "rawConfig < length h" and "primaryContext < length h"
    and "h ! rawConfig = []" and "distinct (map fst (h ! primaryContext))"
  shows "\<exists>c. resolveConfigMap rawConfig primaryContext sectionName logPrefix h
             = (length h, h @ [[], c])"
  using resolveConfigMap_unfold [OF assms(1,2), of sectionName logPrefix] assms(3,4)
  by auto

lemma Load_value:
  "\<exists>c. Load options now h =
     (Inr \<lparr>Main = (if EnableDatabaseGrouping options then length h + 3 else length h + 2),
           DatabaseConfigs =
             (if EnableDatabaseGrouping options then [(''mockdb'', length h + 2)] else []),
           Metadata =
             [(''source_type'', AString ''mock_load''),
              (''parsed_files'', AStrings [''/fake/path/mock.conf'']),
              (''database_grouping_enabled'', ABool (EnableDatabaseGrouping options)),
              (''extraction_date'', AString now)],
           rawMainConfig = length h + 1, rawDatabaseConfigs = [], opts = options\<rparr>,
      h @ [[(''mock_key_main'', ''mock_value_main''), (''another_key'', ''another_value''),
            (''var1'', ''value1''), (''var2'', ''${var1}_value2'')], []]
        @ (if EnableDatabaseGrouping options
           then [[(''host'', ''localhost''), (''port'', ''5432'')]] else [])
        @ [[], c])"
proof -
  let ?m = "[(''mock_key_main'', ''mock_value_main''), (''another_key'', ''another_value''),
            (''var1'', ''value1''), (''var2'', ''${var1}_value2'')]"
  let ?db = "[(''host'', ''localhost''), (''port'', ''5432'')]"
  have h4: "mapassign (mapassign (mapassign (mapassign (h @ [[], []]) (length h + 0)
              ''mock_key_main'' ''mock_value_main'') (length h + 0)
              ''another_key'' ''another_value'') (length h + 0) ''var1'' ''value1'')
              (length h + 0) ''var2'' ''${var1}_value2'' = h @ [?m, []]"
    by (simp only: mapassign_append_new) (simp add: mapassign_simps)
  show ?thesis
  proof (cases "EnableDatabaseGrouping options")
    case True
    let ?h5 = "h @ [?m, [], ?db]"
    obtain c where c: "resolveConfigMap (length h + 1) (length h) ''MAIN_RESOLVED_MOCK'' [] ?h5
                        = (length ?h5, ?h5 @ [[], c])"
      using resolveConfigMap_empty_raw [of "length h + 1" ?h5 "length h" "''MAIN_RESOLVED_MOCK''" "[]"]
      by (auto simp: nth_append)
    show ?thesis
      using True h4 c
      by (simp add: Load_def newLoadedConfig_def makeMap_def makeLit_def Let_def)
  next
    case False
    let ?h5 = "h @ [?m, []]"
    obtain c where c: "resolveConfigMap (length h + 1) (length h) ''MAIN_RESOLVED_MOCK'' [] ?h5
                        = (length ?h5, ?h5 @ [[], c])"
      using resolveConfigMap_empty_raw [of "length h + 1" ?h5 "length h" "''MAIN_RESOLVED_MOCK''" "[]"]
      by (auto simp: nth_append)
    show ?thesis
      using False h4 c
      by (simp add: Load_def newLoadedConfig_def makeMap_def makeLit_def Let_def)
  qed
qed

section \<open>Facts about the JSON encoding\<close>













section \<open>Claims about \<open>resolveValue\<close>\<close>

text \<open>
  C1. With the context that maps \<open>A\<close> to \<^verbatim>\<open>${B}\<close>, \<open>B\<close> to \<^verbatim>\<open>${C}\<close> and
  \<open>C\<close> to \<^verbatim>\<open>resolved_c\<close>, one call of \<open>resolveValue\<close> on \<^verbatim>\<open>${A}\<close>
  returns \<^verbatim>\<open>${B}\<close>: the value put in is not scanned again. A second call on that
  result returns \<^verbatim>\<open>${C}\<close>, which differs from the result of the first call, so
  \<open>resolveValue\<close> is not idempotent here; a third call returns \<^verbatim>\<open>resolved_c\<close>.
\<close>

theorem resolveValue_one_pass_chain:
  "resolveValue ''${A}'' [(''A'', ''${B}''), (''B'', ''${C}''), (''C'', ''resolved_c'')]
     = ''${B}''
   \<and> resolveValue
       (resolveValue ''${A}'' [(''A'', ''${B}''), (''B'', ''${C}''), (''C'', ''resolved_c'')])
       [(''A'', ''${B}''), (''B'', ''${C}''), (''C'', ''resolved_c'')]
     = ''${C}''
   \<and> resolveValue
       (resolveValue ''${A}'' [(''A'', ''${B}''), (''B'', ''${C}''), (''C'', ''resolved_c'')])
       [(''A'', ''${B}''), (''B'', ''${C}''), (''C'', ''resolved_c'')]
     \<noteq> resolveValue ''${A}'' [(''A'', ''${B}''), (''B'', ''${C}''), (''C'', ''resolved_c'')]
   \<and> resolveValue
       (resolveValue
          (resolveValue ''${A}'' [(''A'', ''${B}''), (''B'', ''${C}''), (''C'', ''resolved_c'')])
          [(''A'', ''${B}''), (''B'', ''${C}''), (''C'', ''resolved_c'')])
       [(''A'', ''${B}''), (''B'', ''${C}''), (''C'', ''resolved_c'')]
     = ''resolved_c''"
  by (simp add: resolveValue_def trimPrefix_def trimSuffix_def hasPrefix_def hasSuffix_def)

text \<open>
  C2. With the context that maps \<open>SELF\<close> to \<^verbatim>\<open>${SELF}\<close>, \<open>resolveValue\<close> on
  \<^verbatim>\<open>${SELF}\<close> returns \<^verbatim>\<open>${SELF}\<close>. The function is total (its recursion is
  proved to terminate above) and has no error result, so the call neither loops nor fails.
\<close>

theorem resolveValue_self_reference:
  "resolveValue ''${SELF}'' [(''SELF'', ''${SELF}'')] = ''${SELF}''"
  by (simp add: resolveValue_def trimPrefix_def trimSuffix_def hasPrefix_def hasSuffix_def)

text \<open>
  C3. An unbraced \<^verbatim>\<open>$NAME\<close> is copied unchanged, whether or not \<open>NAME\<close> is a key
  of the context. For a name that is not empty, does not begin with an opening brace and
  holds no dollar sign, and a text \<open>pre\<close> before it in which no \<^verbatim>\<open>${\<close> is left
  unclosed, the template \<open>pre $NAME post\<close> resolves to the resolved \<open>pre\<close>, then
  \<^verbatim>\<open>$NAME\<close> as written, then the resolved \<open>post\<close>. And only brace-delimited tokens
  are ever substituted: a template in which \<^verbatim>\<open>${\<close> does not occur is returned as
  it is. The witness below has \<open>resolveValue "$NAME" {NAME: "x"} = "$NAME"\<close>.
\<close>

theorem resolveValue_bare_name_unchanged:
  "(\<not> unclosed pre \<and> name \<noteq> [] \<and> hd name \<noteq> CHR ''{'' \<and> CHR ''$'' \<notin> set name
      \<longrightarrow> resolveValue (pre @ ''$'' @ name @ post) c
            = resolveValue pre c @ ''$'' @ name @ resolveValue post c)
   \<and> (\<not> hasOpen t \<longrightarrow> resolveValue t c = t)"
proof (intro conjI impI)
  assume a: "\<not> unclosed pre \<and> name \<noteq> [] \<and> hd name \<noteq> CHR ''{'' \<and> CHR ''$'' \<notin> set name"
  have np: "\<not> hasPrefix (name @ post) ''{''"
    using a by (cases name) (auto simp: hasPrefix_def)
  have "resolveValue (pre @ ''$'' @ name @ post) c
        = resolveValue pre c @ resolveValue (''$'' @ name @ post) c"
    using a by (intro resolveValue_append) (auto simp: hasPrefix_def)
  also have "resolveValue (''$'' @ name @ post) c = CHR ''$'' # resolveValue (name @ post) c"
    using np by (simp add: resolveValue_dollar_other)
  also have "resolveValue (name @ post) c = name @ resolveValue post c"
    using a by (simp add: resolveValue_literal)
  finally show "resolveValue (pre @ ''$'' @ name @ post) c
            = resolveValue pre c @ ''$'' @ name @ resolveValue post c" by simp
next
  assume "\<not> hasOpen t"
  then show "resolveValue t c = t" by (rule resolveValue_no_open)
qed

theorem resolveValue_bare_name_unchanged_witness:
  "resolveValue ''$NAME'' [(''NAME'', ''x'')] = ''$NAME''
   \<and> resolveValue ''${A} and $NAME, ${NAME}'' [(''NAME'', ''x''), (''A'', ''y'')]
       = ''y and $NAME, x''
   \<and> resolveValue ''Hello, $NAME!'' [(''NAME'', ''x'')] = ''Hello, $NAME!''"
proof -
  have 1: "resolveValue ''$NAME'' [(''NAME'', ''x'')] = ''$NAME''"
    using resolveValue_bare_name_unchanged
      [of "[]" "''NAME''" "[]" "[(''NAME'', ''x'')]" "[]", THEN conjunct1]
    by (simp add: resolveValue_Nil)
  have 2: "resolveValue ''${A} and $NAME, ${NAME}'' [(''NAME'', ''x''), (''A'', ''y'')]
       = ''y and $NAME, x''"
    using resolveValue_bare_name_unchanged
      [of "''${A} and ''" "''NAME''" "'', ${NAME}''" "[(''NAME'', ''x''), (''A'', ''y'')]" "[]",
       THEN conjunct1]
    by (simp add: resolveValue_def trimPrefix_def trimSuffix_def hasPrefix_def hasSuffix_def)
  have 3: "resolveValue ''Hello, $NAME!'' [(''NAME'', ''x'')] = ''Hello, $NAME!''"
    using resolveValue_bare_name_unchanged
      [of "[]" "[]" "[]" "[(''NAME'', ''x'')]" "''Hello, $NAME!''", THEN conjunct2]
    by simp
  show ?thesis using 1 2 3 by simp
qed

text \<open>
  C4. A token \<^verbatim>\<open>${IDENTIFIER}\<close> of the template (an identifier is what the group
  \<^verbatim>\<open>(.*?)\<close> can capture: no closing brace and no line feed), standing after a text
  \<open>pre\<close> in which no \<^verbatim>\<open>${\<close> is left unclosed, is replaced by the context value as
  it is when the identifier is a key of the context, and is left as written, braces
  included, when it is not; the texts before and after it are resolved on their own.
\<close>

theorem resolveValue_token:
  assumes "\<not> unclosed pre" and "CHR ''}'' \<notin> set ident" and "CHR 0x0A \<notin> set ident"
  shows "resolveValue (pre @ ''${'' @ ident @ ''}'' @ post) c
         = resolveValue pre c
           @ (case map_of c ident of Some v \<Rightarrow> v | None \<Rightarrow> ''${'' @ ident @ ''}'')
           @ resolveValue post c"
proof -
  have "resolveValue (pre @ ''${'' @ ident @ ''}'' @ post) c
        = resolveValue pre c @ resolveValue (''${'' @ ident @ ''}'' @ post) c"
    using assms(1) by (intro resolveValue_append) (auto simp: hasPrefix_def)
  then show ?thesis
    using resolveValue_token_head [OF assms(2,3), of post c] by simp
qed

theorem resolveValue_token_witness:
  "resolveValue ''http://${SERVER_HOST}:${SERVER_PORT}/api'' [(''SERVER_PORT'', ''${P}'')]
     = ''http://${SERVER_HOST}:${P}/api''"
proof -
  have a: "resolveValue ''http://${SERVER_HOST}:${SERVER_PORT}/api'' [(''SERVER_PORT'', ''${P}'')]
        = resolveValue ''http://'' [(''SERVER_PORT'', ''${P}'')] @ ''${SERVER_HOST}''
          @ resolveValue '':${SERVER_PORT}/api'' [(''SERVER_PORT'', ''${P}'')]"
    using resolveValue_token
      [of "''http://''" "''SERVER_HOST''" "'':${SERVER_PORT}/api''" "[(''SERVER_PORT'', ''${P}'')]"]
    by simp
  have b: "resolveValue '':${SERVER_PORT}/api'' [(''SERVER_PORT'', ''${P}'')]
        = resolveValue '':'' [(''SERVER_PORT'', ''${P}'')] @ ''${P}''
          @ resolveValue ''/api'' [(''SERVER_PORT'', ''${P}'')]"
    using resolveValue_token
      [of "'':''" "''SERVER_PORT''" "''/api''" "[(''SERVER_PORT'', ''${P}'')]"]
    by simp
  have c: "resolveValue ''http://'' [(''SERVER_PORT'', ''${P}'')] = ''http://''"
    "resolveValue '':'' [(''SERVER_PORT'', ''${P}'')] = '':''"
    "resolveValue ''/api'' [(''SERVER_PORT'', ''${P}'')] = ''/api''"
    by (simp_all add: resolveValue_def)
  show ?thesis using a b c by simp
qed

section \<open>Claims about \<open>resolveConfigMap\<close>\<close>

text \<open>
  C5. For maps \<open>rawConfig\<close> and \<open>primaryContext\<close> of the heap (their keys distinct,
  as in any Go map; the two references may be the same), \<open>resolveConfigMap\<close> returns a
  reference to a new map, one that is not in the heap before the call. The new map has
  exactly the keys of \<open>rawConfig\<close>, and the value under each key is \<open>resolveValue\<close>
  of the raw value against the combined context \<open>rawConfig\<close> laid over
  \<open>primaryContext\<close>: a lookup in \<open>entries h rawConfig @ entries h primaryContext\<close> finds
  the entry of \<open>rawConfig\<close> first. Every map that was in the heap before the call, the
  two arguments among them, has the same entries after it.
\<close>

theorem resolveConfigMap_overlay:
  assumes "rawConfig < length h" and "primaryContext < length h"
    and "distinct (map fst (entries h rawConfig))"
    and "distinct (map fst (entries h primaryContext))"
  shows "case resolveConfigMap rawConfig primaryContext sectionName logPrefix h of
           (resolved, h') \<Rightarrow>
             \<not> resolved < length h \<and> resolved < length h'
             \<and> map fst (entries h' resolved) = map fst (entries h rawConfig)
             \<and> entries h' resolved
                 = map (\<lambda>(k, v).
                          (k, resolveValue v (entries h rawConfig @ entries h primaryContext)))
                     (entries h rawConfig)
             \<and> entries h' rawConfig = entries h rawConfig
             \<and> entries h' primaryContext = entries h primaryContext
             \<and> (\<forall>r < length h. entries h' r = entries h r)"
proof -
  have d: "distinct (map fst (h ! rawConfig))" "distinct (map fst (h ! primaryContext))"
    using assms by (simp_all add: entries_def)
  obtain c where c: "map_of c = map_of (h ! rawConfig @ h ! primaryContext)"
    and r: "resolveConfigMap rawConfig primaryContext sectionName logPrefix h
            = (length h, h @ [map (\<lambda>(k, v). (k, resolveValue v c)) (h ! rawConfig), c])"
    using resolveConfigMap_unfold [OF assms(1,2) d, of sectionName logPrefix] by blast
  have rc: "\<And>v. resolveValue v c = resolveValue v (h ! rawConfig @ h ! primaryContext)"
    using c by (rule resolveValue_cong)
  have keys: "map fst (map (\<lambda>(k, v). (k, resolveValue v c)) (h ! rawConfig))
              = map fst (h ! rawConfig)"
    by (induction "h ! rawConfig") auto
  show ?thesis
    using assms(1,2) keys
    by (simp add: r entries_def nth_append rc)
qed

theorem resolveConfigMap_overlay_witness:
  "(case resolveConfigMap 0 1 ''MAIN'' []
           [[(''a'', ''${b}-${c}-${a}''), (''b'', ''raw'')], [(''b'', ''prim''), (''c'', ''cc'')]] of
      (resolved, h') \<Rightarrow>
        entries h' resolved = [(''a'', ''raw-cc-${b}-${c}-${a}''), (''b'', ''raw'')]
        \<and> entries h' 0 = [(''a'', ''${b}-${c}-${a}''), (''b'', ''raw'')]
        \<and> entries h' 1 = [(''b'', ''prim''), (''c'', ''cc'')])
   \<and> (case resolveConfigMap 0 0 ''MAIN'' [] [[(''x'', ''${y}''), (''y'', ''${x}'')]] of
      (resolved, h') \<Rightarrow>
        entries h' resolved = [(''x'', ''${x}''), (''y'', ''${y}'')]
        \<and> entries h' 0 = [(''x'', ''${y}''), (''y'', ''${x}'')])"
proof -
  have 1: "case resolveConfigMap 0 1 ''MAIN'' []
           [[(''a'', ''${b}-${c}-${a}''), (''b'', ''raw'')], [(''b'', ''prim''), (''c'', ''cc'')]] of
      (resolved, h') \<Rightarrow>
        entries h' resolved = [(''a'', ''raw-cc-${b}-${c}-${a}''), (''b'', ''raw'')]
        \<and> entries h' 0 = [(''a'', ''${b}-${c}-${a}''), (''b'', ''raw'')]
        \<and> entries h' 1 = [(''b'', ''prim''), (''c'', ''cc'')]"
    using resolveConfigMap_overlay
      [of 0 "[[(''a'', ''${b}-${c}-${a}''), (''b'', ''raw'')], [(''b'', ''prim''), (''c'', ''cc'')]]"
          1 "''MAIN''" "[]"]
    by (simp add: entries_simps resolveValue_def trimPrefix_def trimSuffix_def hasPrefix_def
          hasSuffix_def split: prod.splits)
  have 2: "case resolveConfigMap 0 0 ''MAIN'' [] [[(''x'', ''${y}''), (''y'', ''${x}'')]] of
      (resolved, h') \<Rightarrow>
        entries h' resolved = [(''x'', ''${x}''), (''y'', ''${y}'')]
        \<and> entries h' 0 = [(''x'', ''${y}''), (''y'', ''${x}'')]"
    using resolveConfigMap_overlay [of 0 "[[(''x'', ''${y}''), (''y'', ''${x}'')]]" 0 "''MAIN''" "[]"]
    by (simp add: entries_simps resolveValue_def trimPrefix_def trimSuffix_def hasPrefix_def
          hasSuffix_def split: prod.splits)
  show ?thesis using 1 2 by simp
qed

section \<open>Claims about \<open>Load\<close>\<close>

text \<open>
  C6. \<open>Load\<close> never fails: for every options value, every reading of the clock and
  every heap it returns a \<open>LoadedConfig\<close> (holding the options it was given, its
  \<open>Main\<close> map allocated) and no error. The function has a single return with a nil
  error and reads no file; \<open>resolveValue\<close> and \<open>resolveConfigMap\<close>, which do the
  resolving, have no error result, so a placeholder that cannot be resolved cannot make
  \<open>Load\<close> fail. The reader \<open>parseConfFile\<close>, given an allocated target map,
  returns a nil error as well, and the value \<^verbatim>\<open>world_${input_var}\<close> it stores is
  kept with its placeholder.
\<close>

theorem Load_never_fails:
  "(\<exists>lc h'. Load options now h = (Inr lc, h') \<and> opts lc = options \<and> Main lc < length h')
   \<and> (targetConfig < length h \<longrightarrow>
        fst (parseConfFile filePath targetConfig sectionName logPrefix h) = None
        \<and> map_of (entries (snd (parseConfFile filePath targetConfig sectionName logPrefix h))
                    targetConfig) ''another_input'' = Some ''world_${input_var}'')"
proof -
  have p: "targetConfig < length h \<longrightarrow>
        fst (parseConfFile filePath targetConfig sectionName logPrefix h) = None
        \<and> map_of (entries (snd (parseConfFile filePath targetConfig sectionName logPrefix h))
                    targetConfig) ''another_input'' = Some ''world_${input_var}''"
    by (simp add: parseConfFile_def Let_def mapassign_def entries_def update_conv')
  obtain c lc h' where "Load options now h = (Inr lc, h')"
    and "lc = \<lparr>Main = (if EnableDatabaseGrouping options then length h + 3 else length h + 2),
           DatabaseConfigs =
             (if EnableDatabaseGrouping options then [(''mockdb'', length h + 2)] else []),
           Metadata =
             [(''source_type'', AString ''mock_load''),
              (''parsed_files'', AStrings [''/fake/path/mock.conf'']),
              (''database_grouping_enabled'', ABool (EnableDatabaseGrouping options)),
              (''extraction_date'', AString now)],
           rawMainConfig = length h + 1, rawDatabaseConfigs = [], opts = options\<rparr>"
    and "h' = h @ [[(''mock_key_main'', ''mock_value_main''), (''another_key'', ''another_value''),
            (''var1'', ''value1''), (''var2'', ''${var1}_value2'')], []]
        @ (if EnableDatabaseGrouping options
           then [[(''host'', ''localhost''), (''port'', ''5432'')]] else [])
        @ [[], c]"
    using Load_value [of options now h] by blast
  then have "\<exists>lc h'. Load options now h = (Inr lc, h') \<and> opts lc = options
               \<and> Main lc < length h'"
    by auto
  with p show ?thesis by blast
qed

theorem Load_never_fails_witness:
  "(\<exists>lc h'. Load \<lparr>BasePath = ''/etc/app'', CustomFilePaths = [], Environment = ''dev'',
                     EnableDatabaseGrouping = True\<rparr> ''2026-10-31T00:00:00Z'' [[]]
               = (Inr lc, h'))
   \<and> fst (parseConfFile ''/etc/app/example.conf'' 0 ''TEST'' [] [[]]) = None"
  using Load_never_fails
    [of "\<lparr>BasePath = ''/etc/app'', CustomFilePaths = [], Environment = ''dev'',
          EnableDatabaseGrouping = True\<rparr>" "''2026-10-31T00:00:00Z''" "[[]]" 0
        "''/etc/app/example.conf''" "''TEST''" "[]"]
  by auto

text \<open>
  C7, as stated, fails. \<open>Load\<close> is a stand-in that reads no file: called with the two
  files \<^verbatim>\<open>database_mysql.conf\<close> and \<^verbatim>\<open>database_postgres.conf\<close> named in its
  options and grouping enabled, it returns \<open>DatabaseConfigs\<close> with the single key
  \<open>mockdb\<close>, so there is no entry for \<open>mysql\<close> or \<open>postgres\<close>; with grouping
  disabled \<open>Main\<close> is empty, so no key of those files is flattened into it.
\<close>

theorem Load_database_grouping_counterexample:
  "map fst (DatabaseConfigs (projr (fst (Load
      \<lparr>BasePath = ''/etc/app'',
       CustomFilePaths = [''/etc/app/conf/database_mysql.conf'',
                          ''/etc/app/conf/database_postgres.conf''],
       Environment = [], EnableDatabaseGrouping = True\<rparr>
      ''2026-10-31T00:00:00Z'' [])))) = [''mockdb'']
   \<and> map_of (DatabaseConfigs (projr (fst (Load
      \<lparr>BasePath = ''/etc/app'',
       CustomFilePaths = [''/etc/app/conf/database_mysql.conf'',
                          ''/etc/app/conf/database_postgres.conf''],
       Environment = [], EnableDatabaseGrouping = True\<rparr>
      ''2026-10-31T00:00:00Z'' [])))) ''mysql'' = None
   \<and> map_of (DatabaseConfigs (projr (fst (Load
      \<lparr>BasePath = ''/etc/app'',
       CustomFilePaths = [''/etc/app/conf/database_mysql.conf'',
                          ''/etc/app/conf/database_postgres.conf''],
       Environment = [], EnableDatabaseGrouping = True\<rparr>
      ''2026-10-31T00:00:00Z'' [])))) ''postgres'' = None
   \<and> entries
       (snd (Load
          \<lparr>BasePath = ''/etc/app'',
           CustomFilePaths = [''/etc/app/conf/database_mysql.conf'',
                              ''/etc/app/conf/database_postgres.conf''],
           Environment = [], EnableDatabaseGrouping = False\<rparr>
          ''2026-10-31T00:00:00Z'' []))
       (Main (projr (fst (Load
          \<lparr>BasePath = ''/etc/app'',
           CustomFilePaths = [''/etc/app/conf/database_mysql.conf'',
                              ''/etc/app/conf/database_postgres.conf''],
           Environment = [], EnableDatabaseGrouping = False\<rparr>
          ''2026-10-31T00:00:00Z'' [])))) = []"
proof -
  let ?on = "\<lparr>BasePath = ''/etc/app'',
       CustomFilePaths = [''/etc/app/conf/database_mysql.conf'',
                          ''/etc/app/conf/database_postgres.conf''],
       Environment = [], EnableDatabaseGrouping = True\<rparr>"
  let ?off = "\<lparr>BasePath = ''/etc/app'',
       CustomFilePaths = [''/etc/app/conf/database_mysql.conf'',
                          ''/etc/app/conf/database_postgres.conf''],
       Environment = [], EnableDatabaseGrouping = False\<rparr>"
  obtain c where on: "Load ?on ''2026-10-31T00:00:00Z'' [] =
     (Inr \<lparr>Main = 3, DatabaseConfigs = [(''mockdb'', 2)],
           Metadata =
             [(''source_type'', AString ''mock_load''),
              (''parsed_files'', AStrings [''/fake/path/mock.conf'']),
              (''database_grouping_enabled'', ABool True),
              (''extraction_date'', AString ''2026-10-31T00:00:00Z'')],
           rawMainConfig = 1, rawDatabaseConfigs = [], opts = ?on\<rparr>,
      [[(''mock_key_main'', ''mock_value_main''), (''another_key'', ''another_value''),
            (''var1'', ''value1''), (''var2'', ''${var1}_value2'')], [],
       [(''host'', ''localhost''), (''port'', ''5432'')], [], c])"
    using Load_value [of ?on "''2026-10-31T00:00:00Z''" "[]"] by auto
  obtain d where off: "Load ?off ''2026-10-31T00:00:00Z'' [] =
     (Inr \<lparr>Main = 2, DatabaseConfigs = [],
           Metadata =
             [(''source_type'', AString ''mock_load''),
              (''parsed_files'', AStrings [''/fake/path/mock.conf'']),
              (''database_grouping_enabled'', ABool False),
              (''extraction_date'', AString ''2026-10-31T00:00:00Z'')],
           rawMainConfig = 1, rawDatabaseConfigs = [], opts = ?off\<rparr>,
      [[(''mock_key_main'', ''mock_value_main''), (''another_key'', ''another_value''),
            (''var1'', ''value1''), (''var2'', ''${var1}_value2'')], [], [], d])"
    using Load_value [of ?off "''2026-10-31T00:00:00Z''" "[]"] by auto
  show ?thesis
    by (simp add: on off entries_def)
qed

text \<open>
  C7, amended. Whatever the options (base path, file paths, environment), the clock and
  the heap, \<open>Load\<close> succeeds with an empty \<open>Main\<close>; with grouping enabled
  \<open>DatabaseConfigs\<close> has exactly the entry \<open>mockdb\<close> with \<open>host\<close> mapped to
  \<open>localhost\<close> and \<open>port\<close> to \<open>5432\<close>, and with grouping disabled
  \<open>DatabaseConfigs\<close> is empty.
\<close>

theorem Load_database_grouping_mock:
  "\<exists>lc h'. Load options now h = (Inr lc, h')
     \<and> entries h' (Main lc) = []
     \<and> map (\<lambda>(k, r). (k, entries h' r)) (DatabaseConfigs lc)
         = (if EnableDatabaseGrouping options
            then [(''mockdb'', [(''host'', ''localhost''), (''port'', ''5432'')])] else [])"
proof -
  obtain c lc h' where "Load options now h = (Inr lc, h')"
    and "lc = \<lparr>Main = (if EnableDatabaseGrouping options then length h + 3 else length h + 2),
           DatabaseConfigs =
             (if EnableDatabaseGrouping options then [(''mockdb'', length h + 2)] else []),
           Metadata =
             [(''source_type'', AString ''mock_load''),
              (''parsed_files'', AStrings [''/fake/path/mock.conf'']),
              (''database_grouping_enabled'', ABool (EnableDatabaseGrouping options)),
              (''extraction_date'', AString now)],
           rawMainConfig = length h + 1, rawDatabaseConfigs = [], opts = options\<rparr>"
    and "h' = h @ [[(''mock_key_main'', ''mock_value_main''), (''another_key'', ''another_value''),
            (''var1'', ''value1''), (''var2'', ''${var1}_value2'')], []]
        @ (if EnableDatabaseGrouping options
           then [[(''host'', ''localhost''), (''port'', ''5432'')]] else [])
        @ [[], c]"
    using Load_value [of options now h] by blast
  then show ?thesis by (auto simp: entries_def nth_append)
qed

theorem Load_database_grouping_mock_witness:
  "(\<exists>lc h'. Load \<lparr>BasePath = ''/etc/app'', CustomFilePaths = [], Environment = ''dev'',
                     EnableDatabaseGrouping = True\<rparr> ''2026-10-31T00:00:00Z'' [] = (Inr lc, h')
      \<and> entries h' (Main lc) = []
      \<and> map (\<lambda>(k, r). (k, entries h' r)) (DatabaseConfigs lc)
          = [(''mockdb'', [(''host'', ''localhost''), (''port'', ''5432'')])])
   \<and> (\<exists>lc h'. Load \<lparr>BasePath = ''/etc/app'', CustomFilePaths = [], Environment = ''dev'',
                     EnableDatabaseGrouping = False\<rparr> ''2026-10-31T00:00:00Z'' [] = (Inr lc, h')
      \<and> entries h' (Main lc) = []
      \<and> map (\<lambda>(k, r). (k, entries h' r)) (DatabaseConfigs lc) = [])"
  using Load_database_grouping_mock
          [of "\<lparr>BasePath = ''/etc/app'', CustomFilePaths = [], Environment = ''dev'',
                EnableDatabaseGrouping = True\<rparr>" "''2026-10-31T00:00:00Z''" "[]"]
        Load_database_grouping_mock
          [of "\<lparr>BasePath = ''/etc/app'', CustomFilePaths = [], Environment = ''dev'',
                EnableDatabaseGrouping = False\<rparr>" "''2026-10-31T00:00:00Z''" "[]"]
  by simp

section \<open>Claims about \<open>ToJSON\<close> and \<open>ToMap\<close>\<close>





section \<open>Claims about \<open>InstantiateProduct\<close>\<close>

text \<open>
  C9, as stated, fails. \<open>InstantiateProduct\<close> is a stand-in that reads no chart and
  writes no file. With the chart file \<^verbatim>\<open>/charts/prod/values.yaml\<close> holding the
  placeholder for \<open>undefinedVar\<close> (an at sign, then the name in braces), no variable
  assigned and the policy \<open>error\<close>, the call does not abort: it returns the path \<^verbatim>\<open>/tmp/out/prod\<close> with a nil error, writes
  one log line and leaves the files as they were, so no error names \<open>undefinedVar\<close>.
\<close>

theorem InstantiateProduct_policy_counterexample:
  "InstantiateProduct \<lparr>baseProductsPath = ''/charts'', InstantiateProductFunc = None\<rparr>
     ''/charts/prod'' [] ''/tmp/out'' UnassignedVarError
     \<lparr>files = [(''/charts/prod/values.yaml'', ''replicaCount: '' @ CHR ''@'' # ''{undefinedVar}'')],
      logged = []\<rparr>
   = (Inr ''/tmp/out/prod'',
      \<lparr>files = [(''/charts/prod/values.yaml'', ''replicaCount: '' @ CHR ''@'' # ''{undefinedVar}'')],
       logged = [''Mock InstantiateProduct: productNameOrPath=/charts/prod, outputPath=/tmp/out, instantiatedPath=/tmp/out/prod'']\<rparr>)"
  by (simp add: InstantiateProduct_def Let_def Join_def Base_def Clean_def cleanStep_def
        UnassignedVarError_def)

text \<open>
  C9, amended. When no replacing function is installed, \<open>InstantiateProduct\<close> applies no
  policy for unassigned variables: its result is the same for every variables mapping and
  every policy string. It fails exactly when the output path is empty, otherwise it
  returns \<open>Join outputPath (Base productNameOrPath)\<close> with a nil error, and in both
  cases the files are left as they were.
\<close>

theorem InstantiateProduct_ignores_policy:
  assumes "InstantiateProductFunc m = None"
  shows "InstantiateProduct m productNameOrPath variables outputPath unassignedVarAction w
         = InstantiateProduct m productNameOrPath variables' outputPath unassignedVarAction' w
         \<and> files (snd (InstantiateProduct m productNameOrPath variables outputPath
                          unassignedVarAction w)) = files w
         \<and> fst (InstantiateProduct m productNameOrPath variables outputPath
                   unassignedVarAction w)
           = (if outputPath = [] then Inl (Error ''outputPath cannot be empty'')
              else Inr (Join outputPath (Base productNameOrPath)))"
  using assms by (simp add: InstantiateProduct_def Let_def)

theorem InstantiateProduct_ignores_policy_witness:
  "InstantiateProduct \<lparr>baseProductsPath = ''/charts'', InstantiateProductFunc = None\<rparr>
     ''prod'' [] ''/tmp/out'' UnassignedVarKeep \<lparr>files = [], logged = []\<rparr>
   = InstantiateProduct \<lparr>baseProductsPath = ''/charts'', InstantiateProductFunc = None\<rparr>
     ''prod'' [(''replicaCountVar'', AString ''3'')] ''/tmp/out'' UnassignedVarError
     \<lparr>files = [], logged = []\<rparr>
   \<and> fst (InstantiateProduct \<lparr>baseProductsPath = ''/charts'', InstantiateProductFunc = None\<rparr>
     ''prod'' [] ''/tmp/out'' UnassignedVarKeep \<lparr>files = [], logged = []\<rparr>)
     = Inr ''/tmp/out/prod''
   \<and> fst (InstantiateProduct \<lparr>baseProductsPath = ''/charts'', InstantiateProductFunc = None\<rparr>
     ''prod'' [] [] UnassignedVarEmpty \<lparr>files = [], logged = []\<rparr>)
     = Inl (Error ''outputPath cannot be empty'')"
  using InstantiateProduct_ignores_policy
    [of "\<lparr>baseProductsPath = ''/charts'', InstantiateProductFunc = None\<rparr>"
        "''prod''" "[]" "''/tmp/out''" UnassignedVarKeep "\<lparr>files = [], logged = []\<rparr>"
        "[(''replicaCountVar'', AString ''3'')]" UnassignedVarError]
    InstantiateProduct_ignores_policy
    [of "\<lparr>baseProductsPath = ''/charts'', InstantiateProductFunc = None\<rparr>"
        "''prod''" "[]" "[]" UnassignedVarEmpty "\<lparr>files = [], logged = []\<rparr>"
        "[]" UnassignedVarEmpty]
  by (auto simp add: Let_def Join_def Base_def Clean_def cleanStep_def)

end
